theory Spec2Isabelle
  imports Main
begin

section \<open>The queue manager of Temporal (queue/queue.go)\<close>

text \<open>
  The manager wraps one AMQP connection and one channel. Every method either returns to
  its caller (with or without an error value) or panics on a nil pointer. What the
  manager does to the outside world is recorded as the list of calls it has made, in the
  order it made them; what the outside world answers is a parameter of the model.
\<close>

subsection \<open>Values\<close>

text \<open>A Go error value, identified by its message (\<open>errors.New msg\<close>).\<close>

datatype error = Error string

text \<open>
  How a call ends: it returns a value and a nil error (\<open>Success\<close>), it returns a non-nil
  error (\<open>Failure\<close>), or it panics dereferencing a nil pointer (\<open>Panic\<close>), the only
  run-time panic the code of queue.go can raise by itself.
\<close>

datatype 'a result = Success 'a | Failure error | Panic

text \<open>
  Handles of the AMQP client: a connection is known by the URL that was dialed, a channel
  by the connection it was opened on, a delivery stream by the channel, queue and consumer
  tag it was opened with. A logger is known by the file it writes to.
\<close>

datatype connection = Connection string
datatype channel = Channel connection
datatype deliveries = Deliveries channel string string
datatype logger = Logger string

datatype delivery_mode = Transient | Persistent

record Publishing =
  DeliveryMode :: delivery_mode
  ContentType :: string
  Body :: string

record amqp_Queue =
  Name :: string

record DBOptions =
  User :: string
  Password :: string
  Address :: string
  Port :: string
  SSLModeDisable :: bool

datatype DB = DB DBOptions

text \<open>The part of \<open>config.TemporalConfig\<close> that queue.go reads: \<open>cfg.Database\<close>.\<close>

record TemporalConfig =
  Database_Username :: string
  Database_Password :: string
  Database_URL :: string
  Database_Port :: string

text \<open>Modelled from the spec: the delivery mode of an exchange (section 3, ExchangeIdentity).\<close>

datatype exchange_mode = Fanout | Direct

text \<open>
  The calls the manager makes, with the arguments it passes (the trailing \<open>nil\<close> argument
  tables are left out). \<open>LoggerInfo\<close> is a direct call of the logrus logger;
  \<open>InfoEntry\<close> and \<open>ErrorEntry\<close> are what the manager's own logging wrappers
  \<open>LogInfo\<close> and \<open>LogError\<close> emit.
\<close>

datatype call =
    Dial string
  | ConnectionChannel connection
  | Qos channel int int bool
  | ExchangeDeclare channel string exchange_mode
  | QueueDeclare channel string bool bool bool bool
  | QueueBind channel string string string bool
  | Consume channel string string bool bool bool bool
  | Publish channel string string bool bool Publishing
  | ChannelClose channel
  | ConnectionClose connection
  | LoggerInfo logger string
  | InfoEntry string
  | ErrorEntry error string

text \<open>The calls that reach the broker: everything but logging.\<close>

fun is_broker_call :: "call \<Rightarrow> bool" where
  "is_broker_call (LoggerInfo l m) = False"
| "is_broker_call (InfoEntry m) = False"
| "is_broker_call (ErrorEntry e m) = False"
| "is_broker_call c = True"

definition broker_calls :: "call list \<Rightarrow> call list" where
  "broker_calls tr = filter is_broker_call tr"

text \<open>
  The queue and exchange names are package-level variables declared in a file of the
  package that is not part of the sources at hand; the model takes them as a parameter,
  so every theorem holds whatever strings they are.
\<close>

record names =
  DatabaseFileAddQueue :: string
  IpfsPinQueue :: string
  IpfsFileQueue :: string
  EmailSendQueue :: string
  IpnsEntryQueue :: string
  IpfsKeyCreationQueue :: string
  IpfsClusterPinQueue :: string
  PinExchange :: string
  PinRemovalExchange :: string
  IpfsKeyExchange :: string

text \<open>
  The outside world: the operating system (\<open>os.Hostname\<close>, \<open>os.OpenFile\<close>), the
  database (\<open>database.OpenDBConnection\<close>), the JSON encoder (\<open>json.Marshal\<close>, on
  payloads of any type \<open>'p\<close>) and the broker. The broker answers a call, given the calls
  made before it, with an error or with none; \<open>declared_name\<close> is the queue name the
  broker reports back for a declared queue.

  \<open>log_without_logger\<close> is what the manager's logging wrappers do with an entry when
  the manager has no logger. The wrappers are in a file that is not part of the sources at
  hand, so this is a parameter: \<open>None\<close> if the wrapper panics, otherwise the calls it
  makes before it returns.
\<close>

record 'p env =
  os_Hostname :: "error + string"
  os_OpenFile :: "string \<Rightarrow> error option"
  database_OpenDBConnection :: "DBOptions \<Rightarrow> error option"
  json_Marshal :: "'p \<Rightarrow> error + string"
  broker :: "call list \<Rightarrow> call \<Rightarrow> error option"
  declared_name :: "string \<Rightarrow> string"
  log_without_logger :: "call \<Rightarrow> call list \<Rightarrow> call list option"

text \<open>
  The \<open>Manager\<close> struct (its declaration is in the same missing file; the fields are the
  ones queue.go reads and writes). A pointer field is an option, \<open>None\<close> for nil.
\<close>

record Manager =
  connection :: "connection option"
  channel :: "channel option"
  queue :: "amqp_Queue option"
  QueueName :: string
  Service :: string
  ExchangeName :: string
  logger :: "logger option"
  db :: "DB option"
  cfg :: "TemporalConfig option"

text \<open>The handlers \<open>ConsumeMessages\<close> hands the delivery stream to.\<close>

datatype handler =
    ProcessDatabaseFileAdds
  | ProccessIPFSPins
  | ProccessIPFSFiles
  | ProcessMailSends
  | ProcessIPNSEntryCreationRequests
  | ProcessIPFSKeyCreation
  | ProcessIPFSClusterPins

subsection \<open>Sequencing\<close>

text \<open>
  A method of the manager yields its result, the manager as the method left it, and the
  calls made so far. \<open>and_then\<close> is Go's \<open>if err != nil { return err }\<close>: the rest runs
  only after a success.
\<close>

type_synonym 'a step = "'a result \<times> Manager \<times> call list"

definition and_then :: "'a step \<Rightarrow> ('a \<Rightarrow> Manager \<Rightarrow> call list \<Rightarrow> 'b step) \<Rightarrow> 'b step" where
  "and_then r k =
     (case r of
        (Success a, qm, tr) \<Rightarrow> k a qm tr
      | (Failure err, qm, tr) \<Rightarrow> (Failure err, qm, tr)
      | (Panic, qm, tr) \<Rightarrow> (Panic, qm, tr))"

text \<open>A call on the channel that returns only an error.\<close>

definition amqp_call :: "'p env \<Rightarrow> call \<Rightarrow> Manager \<Rightarrow> call list \<Rightarrow> unit step" where
  "amqp_call e c qm tr =
     (case broker e tr c of
        Some err \<Rightarrow> (Failure err, qm, tr @ [c])
      | None \<Rightarrow> (Success (), qm, tr @ [c]))"

subsection \<open>The functions of queue.go\<close>

text \<open>
  Modelled from the spec: \<open>LogInfo\<close> and \<open>LogError\<close> are methods of the manager in a file
  that is not part of the sources at hand. By section 6 (the core emits structured log
  events to a logging sink) each emits one log event to the manager's logger. On a manager
  without a logger they do what \<open>log_without_logger\<close> says.
\<close>

definition log_entry :: "'p env \<Rightarrow> call \<Rightarrow> Manager \<Rightarrow> call list \<Rightarrow> unit step" where
  "log_entry e entry qm tr =
     (case logger qm of
        Some l \<Rightarrow> (Success (), qm, tr @ [entry])
      | None \<Rightarrow>
          (case log_without_logger e entry tr of
             None \<Rightarrow> (Panic, qm, tr)
           | Some calls \<Rightarrow> (Success (), qm, tr @ calls)))"

definition LogInfo :: "'p env \<Rightarrow> string \<Rightarrow> Manager \<Rightarrow> call list \<Rightarrow> unit step" where
  "LogInfo e message qm tr = log_entry e (InfoEntry message) qm tr"

definition LogError :: "'p env \<Rightarrow> error \<Rightarrow> string \<Rightarrow> Manager \<Rightarrow> call list \<Rightarrow> unit step" where
  "LogError e err message qm tr = log_entry e (ErrorEntry err message) qm tr"

definition setupLogging :: "'p env \<Rightarrow> Manager \<Rightarrow> call list \<Rightarrow> unit step" where
  "setupLogging e qm tr =
     (let logFileName = ''/var/log/temporal/'' @ QueueName qm @ ''_service.log'' in
      case os_OpenFile e logFileName of
        Some err \<Rightarrow> (Failure err, qm, tr)
      | None \<Rightarrow>
          (Success (), qm\<lparr>logger := Some (Logger logFileName)\<rparr>,
           tr @ [LoggerInfo (Logger logFileName) ''Logging initialized'']))"

definition parseQueueName :: "'p env \<Rightarrow> string \<Rightarrow> Manager \<Rightarrow> call list \<Rightarrow> unit step" where
  "parseQueueName e queueName qm tr =
     (case os_Hostname e of
        Inl err \<Rightarrow> (Failure err, qm, tr)
      | Inr host \<Rightarrow> (Success (), qm\<lparr>QueueName := host @ ''+'' @ queueName\<rparr>, tr))"

definition setupConnection :: "'p env \<Rightarrow> string \<Rightarrow> call list \<Rightarrow> connection result \<times> call list" where
  "setupConnection e connectionURL tr =
     (case broker e tr (Dial connectionURL) of
        Some err \<Rightarrow> (Failure err, tr @ [Dial connectionURL])
      | None \<Rightarrow> (Success (Connection connectionURL), tr @ [Dial connectionURL]))"

definition OpenChannel :: "'p env \<Rightarrow> Manager \<Rightarrow> call list \<Rightarrow> unit step" where
  "OpenChannel e qm tr =
     (case connection qm of
        None \<Rightarrow> (Panic, qm, tr)
      | Some conn \<Rightarrow>
          (case broker e tr (ConnectionChannel conn) of
             Some err \<Rightarrow> (Failure err, qm, tr @ [ConnectionChannel conn])
           | None \<Rightarrow>
               and_then
                 (if logger qm \<noteq> None
                  then LogInfo e ''channel opened'' qm (tr @ [ConnectionChannel conn])
                  else (Success (), qm, tr @ [ConnectionChannel conn]))
                 (\<lambda>_ qm tr.
                    amqp_call e (Qos (Channel conn) 10 0 False)
                      (qm\<lparr>channel := Some (Channel conn)\<rparr>) tr)))"

definition DeclareQueue :: "'p env \<Rightarrow> Manager \<Rightarrow> call list \<Rightarrow> unit step" where
  "DeclareQueue e qm tr =
     (case channel qm of
        None \<Rightarrow> (Panic, qm, tr)
      | Some ch \<Rightarrow>
          (let c = QueueDeclare ch (QueueName qm) True False False False in
           case broker e tr c of
             Some err \<Rightarrow> (Failure err, qm, tr @ [c])
           | None \<Rightarrow>
               and_then
                 (if logger qm \<noteq> None then LogInfo e ''queue declared'' qm (tr @ [c])
                  else (Success (), qm, tr @ [c]))
                 (\<lambda>_ qm tr.
                    (Success (),
                     qm\<lparr>queue := Some \<lparr>Name = declared_name e (QueueName qm)\<rparr>\<rparr>, tr))))"

text \<open>
  Modelled from the spec: \<open>DeclareIPFSPinExchange\<close> and \<open>DeclareIPFSKeyExchange\<close> are
  methods of the manager in a file that is not part of the sources at hand. By section 4.2
  (if the category requires an exchange, the exchange and binding are declared before the
  queue is declared; \<open>DeclareExchange(ExchangeIdentity, mode)\<close> and
  \<open>Bind(QueueIdentity, ExchangeIdentity)\<close>, with the fan-out mode for the categories that
  use an exchange) each declares its exchange on the manager's channel and then binds the
  manager's queue to it.
\<close>

definition DeclareExchange :: "'p env \<Rightarrow> string \<Rightarrow> Manager \<Rightarrow> call list \<Rightarrow> unit step" where
  "DeclareExchange e exchange qm tr =
     (case channel qm of
        None \<Rightarrow> (Panic, qm, tr)
      | Some ch \<Rightarrow>
          and_then (amqp_call e (ExchangeDeclare ch exchange Fanout) qm tr) (\<lambda>_ qm tr.
          amqp_call e (QueueBind ch (QueueName qm) [] exchange False) qm tr))"

definition DeclareIPFSPinExchange :: "names \<Rightarrow> 'p env \<Rightarrow> Manager \<Rightarrow> call list \<Rightarrow> unit step" where
  "DeclareIPFSPinExchange N e qm tr = DeclareExchange e (PinExchange N) qm tr"

definition DeclareIPFSKeyExchange :: "names \<Rightarrow> 'p env \<Rightarrow> Manager \<Rightarrow> call list \<Rightarrow> unit step" where
  "DeclareIPFSKeyExchange N e qm tr = DeclareExchange e (IpfsKeyExchange N) qm tr"

text \<open>The struct literal \<open>Manager{connection: conn}\<close>: every other field is zero.\<close>

definition new_Manager :: "connection \<Rightarrow> Manager" where
  "new_Manager conn =
     \<lparr>connection = Some conn, channel = None, queue = None, QueueName = [], Service = [],
      ExchangeName = [], logger = None, db = None, cfg = None\<rparr>"

text \<open>\<open>Initialize\<close> returns the manager with a nil error, or a nil manager with the error.\<close>

definition returning :: "unit step \<Rightarrow> Manager result \<times> call list" where
  "returning r =
     (case r of
        (Success u, qm, tr) \<Rightarrow> (Success qm, tr)
      | (Failure err, qm, tr) \<Rightarrow> (Failure err, tr)
      | (Panic, qm, tr) \<Rightarrow> (Panic, tr))"

text \<open>
  The variadic \<open>logFilePath\<close> of the source is never read and is left out. The
  \<open>switch queueName\<close> takes the first case that matches.
\<close>

definition Initialize ::
  "names \<Rightarrow> 'p env \<Rightarrow> string \<Rightarrow> string \<Rightarrow> bool \<Rightarrow> bool \<Rightarrow> call list \<Rightarrow> Manager result \<times> call list" where
  "Initialize N e queueName connectionURL publish service tr0 =
     (case setupConnection e connectionURL tr0 of
        (Failure err, tr1) \<Rightarrow> (Failure err, tr1)
      | (Panic, tr1) \<Rightarrow> (Panic, tr1)
      | (Success conn, tr1) \<Rightarrow>
          returning
            (and_then (OpenChannel e (new_Manager conn) tr1) (\<lambda>_ qm tr.
             and_then
               (if service
                then setupLogging e (qm\<lparr>QueueName := queueName, Service := queueName\<rparr>) tr
                else (Success (), qm\<lparr>QueueName := queueName, Service := queueName\<rparr>, tr))
               (\<lambda>_ qm tr.
             and_then
               (if queueName = IpfsPinQueue N then
                  and_then (parseQueueName e queueName qm tr) (\<lambda>_ qm tr.
                  and_then (DeclareIPFSPinExchange N e qm tr) (\<lambda>_ qm tr.
                  (Success (), qm\<lparr>ExchangeName := PinExchange N\<rparr>, tr)))
                else if queueName = IpfsKeyCreationQueue N then
                  and_then (parseQueueName e queueName qm tr) (\<lambda>_ qm tr.
                  and_then (DeclareIPFSKeyExchange N e qm tr) (\<lambda>_ qm tr.
                  (Success (), qm\<lparr>ExchangeName := IpfsKeyExchange N\<rparr>, tr)))
                else (Success (), qm, tr))
               (\<lambda>_ qm tr.
             if publish then (Success (), qm, tr)
             else DeclareQueue e qm tr)))))"

text \<open>
  The final \<open>switch qm.Service\<close> of \<open>ConsumeMessages\<close>: the handler whose result
  \<open>ConsumeMessages\<close> returns, or the error of the default case. The handlers are in
  files that are not part of the sources at hand; \<open>Success (h, msgs)\<close> says that control
  passes to handler \<open>h\<close> with the delivery stream \<open>msgs\<close>.
\<close>

definition dispatch :: "names \<Rightarrow> string \<Rightarrow> deliveries \<Rightarrow> (handler \<times> deliveries) result" where
  "dispatch N service msgs =
     (if service = DatabaseFileAddQueue N then Success (ProcessDatabaseFileAdds, msgs)
      else if service = IpfsPinQueue N then Success (ProccessIPFSPins, msgs)
      else if service = IpfsFileQueue N then Success (ProccessIPFSFiles, msgs)
      else if service = EmailSendQueue N then Success (ProcessMailSends, msgs)
      else if service = IpnsEntryQueue N then Success (ProcessIPNSEntryCreationRequests, msgs)
      else if service = IpfsKeyCreationQueue N then Success (ProcessIPFSKeyCreation, msgs)
      else if service = IpfsClusterPinQueue N then Success (ProcessIPFSClusterPins, msgs)
      else Failure (Error ''invalid queue name''))"

text \<open>The \<open>database.DBOptions\<close> literal that \<open>ConsumeMessages\<close> builds from \<open>cfg\<close>.\<close>

definition database_options :: "TemporalConfig \<Rightarrow> DBOptions" where
  "database_options c =
     \<lparr>User = Database_Username c, Password = Database_Password c,
      Address = Database_URL c, Port = Database_Port c, SSLModeDisable = True\<rparr>"

text \<open>
  \<open>ConsumeMessages\<close>. The context and the wait group go to the handler untouched, and
  \<open>dbPass\<close>, \<open>dbURL\<close>, \<open>dbUser\<close> are never read: the four are left out. \<open>cfg\<close> is a
  pointer, dereferenced for the database options.
\<close>

definition ConsumeMessages ::
  "names \<Rightarrow> 'p env \<Rightarrow> string \<Rightarrow> TemporalConfig option \<Rightarrow> Manager \<Rightarrow> call list
     \<Rightarrow> (handler \<times> deliveries) step" where
  "ConsumeMessages N e consumer config qm tr0 =
     (case config of
        None \<Rightarrow> (Panic, qm, tr0)
      | Some c \<Rightarrow>
          (let opts = database_options c in
           case database_OpenDBConnection e opts of
             Some err \<Rightarrow> (Failure err, qm, tr0)
           | None \<Rightarrow>
               and_then
                 (let qm1 = qm\<lparr>db := Some (DB opts), cfg := Some c\<rparr> in
                  if ExchangeName qm1 = PinRemovalExchange N \<or> ExchangeName qm1 = PinExchange N
                     \<or> ExchangeName qm1 = IpfsKeyExchange N
                  then (case channel qm1 of
                          None \<Rightarrow> (Panic, qm1, tr0)
                        | Some ch \<Rightarrow>
                            amqp_call e (QueueBind ch (QueueName qm1) [] (ExchangeName qm1) False)
                              qm1 tr0)
                  else (Success (), qm1, tr0))
                 (\<lambda>_ qm tr.
                    case channel qm of
                      None \<Rightarrow> (Panic, qm, tr)
                    | Some ch \<Rightarrow>
                        and_then
                          (amqp_call e (Consume ch (QueueName qm) consumer False False False False)
                             qm tr)
                          (\<lambda>_ qm tr.
                             (dispatch N (Service qm) (Deliveries ch (QueueName qm) consumer),
                              qm, tr)))))"

definition PublishMessageWithExchange ::
  "names \<Rightarrow> 'p env \<Rightarrow> 'p \<Rightarrow> string \<Rightarrow> Manager \<Rightarrow> call list \<Rightarrow> unit step" where
  "PublishMessageWithExchange N e body exchangeName qm tr =
     (if exchangeName = PinExchange N \<or> exchangeName = PinRemovalExchange N
         \<or> exchangeName = IpfsKeyExchange N
      then
        (case json_Marshal e body of
           Inl err \<Rightarrow> (Failure err, qm, tr)
         | Inr bodyMarshaled \<Rightarrow>
             (case channel qm of
                None \<Rightarrow> (Panic, qm, tr)
              | Some ch \<Rightarrow>
                  amqp_call e
                    (Publish ch exchangeName [] False False
                       \<lparr>DeliveryMode = Persistent, ContentType = ''text/plain'',
                        Body = bodyMarshaled\<rparr>)
                    qm tr))
      else (Failure (Error ''invalid exchange name provided''), qm, tr))"

text \<open>
  \<open>PublishMessage\<close> reads \<open>qm.queue.Name\<close> while it builds the arguments of the
  publish: a nil queue panics there, before the channel is used.
\<close>

definition PublishMessage :: "'p env \<Rightarrow> 'p \<Rightarrow> Manager \<Rightarrow> call list \<Rightarrow> unit step" where
  "PublishMessage e body qm tr =
     (case json_Marshal e body of
        Inl err \<Rightarrow> (Failure err, qm, tr)
      | Inr bodyMarshaled \<Rightarrow>
          (case queue qm of
             None \<Rightarrow> (Panic, qm, tr)
           | Some q \<Rightarrow>
               (case channel qm of
                  None \<Rightarrow> (Panic, qm, tr)
                | Some ch \<Rightarrow>
                    amqp_call e
                      (Publish ch [] (Name q) False False
                         \<lparr>DeliveryMode = Persistent, ContentType = ''text/plain'',
                          Body = bodyMarshaled\<rparr>)
                      qm tr)))"

definition Close :: "'p env \<Rightarrow> Manager \<Rightarrow> call list \<Rightarrow> unit step" where
  "Close e qm tr =
     (case channel qm of
        None \<Rightarrow> (Panic, qm, tr)
      | Some ch \<Rightarrow>
          and_then
            (case broker e tr (ChannelClose ch) of
               Some err \<Rightarrow>
                 LogError e err ''failed to properly close channel'' qm (tr @ [ChannelClose ch])
             | None \<Rightarrow>
                 LogInfo e ''properly shutdown channel'' qm (tr @ [ChannelClose ch]))
            (\<lambda>_ qm tr1.
               case connection qm of
                 None \<Rightarrow> (Panic, qm, tr1)
               | Some conn \<Rightarrow>
                   (case broker e tr1 (ConnectionClose conn) of
                      Some err \<Rightarrow>
                        LogError e err ''failed to properly close connection'' qm
                          (tr1 @ [ConnectionClose conn])
                    | None \<Rightarrow>
                        LogInfo e ''properly shutdown connnetion'' qm
                          (tr1 @ [ConnectionClose conn]))))"

subsection \<open>The calls of the two switches\<close>

text \<open>
  What the \<open>switch queueName\<close> of \<open>Initialize\<close> sends to the broker on channel \<open>ch\<close>
  for a manager whose queue name has become \<open>qn\<close>, and what the
  \<open>switch qm.ExchangeName\<close> of \<open>ConsumeMessages\<close> sends.
\<close>

definition exchange_calls :: "names \<Rightarrow> string \<Rightarrow> channel \<Rightarrow> string \<Rightarrow> call list" where
  "exchange_calls N queueName ch qn =
     (if queueName = IpfsPinQueue N
      then [ExchangeDeclare ch (PinExchange N) Fanout, QueueBind ch qn [] (PinExchange N) False]
      else if queueName = IpfsKeyCreationQueue N
      then [ExchangeDeclare ch (IpfsKeyExchange N) Fanout,
            QueueBind ch qn [] (IpfsKeyExchange N) False]
      else [])"

definition binding_calls :: "names \<Rightarrow> Manager \<Rightarrow> channel \<Rightarrow> call list" where
  "binding_calls N qm ch =
     (if ExchangeName qm = PinRemovalExchange N \<or> ExchangeName qm = PinExchange N
         \<or> ExchangeName qm = IpfsKeyExchange N
      then [QueueBind ch (QueueName qm) [] (ExchangeName qm) False]
      else [])"

subsection \<open>A concrete deployment\<close>

text \<open>
  Concrete inputs on which the functions are evaluated: a set of names, a host called
  \<open>node1\<close>, a broker and a database that accept everything, an encoder that fails on
  the payload \<open>None\<close> (a value \<open>json.Marshal\<close> cannot encode) and quotes any other,
  and logging wrappers that panic on a manager without a logger.
\<close>

definition example_names :: names where
  "example_names =
     \<lparr>DatabaseFileAddQueue = ''dfa-queue'', IpfsPinQueue = ''ipfs-pin-queue'',
      IpfsFileQueue = ''ipfs-file-queue'', EmailSendQueue = ''email-send-queue'',
      IpnsEntryQueue = ''ipns-entry-queue'', IpfsKeyCreationQueue = ''ipfs-key-creation-queue'',
      IpfsClusterPinQueue = ''ipfs-cluster-add-queue'', PinExchange = ''ipfs-pin'',
      PinRemovalExchange = ''ipfs-pin-removal'', IpfsKeyExchange = ''ipfs-key-exchange''\<rparr>"

definition example_env :: "string option env" where
  "example_env =
     \<lparr>os_Hostname = Inr ''node1'',
      os_OpenFile = (\<lambda>f. None),
      database_OpenDBConnection = (\<lambda>opts. None),
      json_Marshal =
        (\<lambda>p. case p of
               None \<Rightarrow> Inl (Error ''json: unsupported type'')
             | Some s \<Rightarrow> Inr (''\"'' @ s @ ''\"'')),
      broker = (\<lambda>tr c. None),
      declared_name = (\<lambda>n. n),
      log_without_logger = (\<lambda>entry tr. None)\<rparr>"

text \<open>The same deployment with a broker that refuses to close a channel.\<close>

definition stubborn_env :: "string option env" where
  "stubborn_env =
     example_env\<lparr>broker :=
       (\<lambda>tr c. case c of
                 ChannelClose ch \<Rightarrow> Some (Error ''channel/connection is not open'')
               | _ \<Rightarrow> None)\<rparr>"

text \<open>
  The same deployment with a database that cannot be reached, with a broker that refuses
  to open a consumption stream, and with logging wrappers that return without a call on a
  manager without a logger.
\<close>

definition offline_env :: "string option env" where
  "offline_env =
     example_env\<lparr>database_OpenDBConnection :=
       (\<lambda>opts. Some (Error ''dial tcp: connection refused''))\<rparr>"

definition refusing_env :: "string option env" where
  "refusing_env =
     example_env\<lparr>broker :=
       (\<lambda>tr c. case c of
                 Consume ch q t a x l w \<Rightarrow> Some (Error ''channel/connection is not open'')
               | _ \<Rightarrow> None)\<rparr>"

definition quiet_env :: "string option env" where
  "quiet_env = example_env\<lparr>log_without_logger := (\<lambda>entry tr. Some [])\<rparr>"

definition example_config :: TemporalConfig where
  "example_config =
     \<lparr>Database_Username = ''postgres'', Database_Password = ''secret'',
      Database_URL = ''127.0.0.1'', Database_Port = ''5432''\<rparr>"

definition example_connection :: connection where
  "example_connection = Connection ''amqp://broker''"

definition example_channel :: channel where
  "example_channel = Channel example_connection"

text \<open>
  The managers \<open>Initialize\<close> returns in this deployment: a consumer of the pin queue,
  the same as a service (with a logger), a publisher to the pin queue, and a consumer of a
  queue name that is no category.
\<close>

definition pin_consumer :: Manager where
  "pin_consumer =
     \<lparr>connection = Some example_connection, channel = Some example_channel,
      queue = Some \<lparr>Name = ''node1+ipfs-pin-queue''\<rparr>,
      QueueName = ''node1+ipfs-pin-queue'', Service = ''ipfs-pin-queue'',
      ExchangeName = ''ipfs-pin'', logger = None, db = None, cfg = None\<rparr>"

definition pin_service :: Manager where
  "pin_service =
     pin_consumer\<lparr>logger := Some (Logger ''/var/log/temporal/ipfs-pin-queue_service.log'')\<rparr>"

definition pin_publisher :: Manager where
  "pin_publisher = pin_consumer\<lparr>queue := None\<rparr>"

definition stray_consumer :: Manager where
  "stray_consumer =
     \<lparr>connection = Some example_connection, channel = Some example_channel,
      queue = Some \<lparr>Name = ''no-such-queue''\<rparr>,
      QueueName = ''no-such-queue'', Service = ''no-such-queue'',
      ExchangeName = [], logger = None, db = None, cfg = None\<rparr>"

text \<open>The calls \<open>Initialize\<close> makes to open the connection and the channel.\<close>

definition opening_calls :: "call list" where
  "opening_calls =
     [Dial ''amqp://broker'', ConnectionChannel example_connection,
      Qos example_channel 10 0 False]"


section \<open>Properties\<close>

subsection \<open>Evaluation of the concrete deployment\<close>

lemmas model_defs = Initialize_def setupConnection_def OpenChannel_def setupLogging_def
  parseQueueName_def DeclareQueue_def DeclareExchange_def DeclareIPFSPinExchange_def
  DeclareIPFSKeyExchange_def new_Manager_def returning_def and_then_def amqp_call_def
  LogInfo_def LogError_def log_entry_def ConsumeMessages_def dispatch_def database_options_def
  PublishMessage_def PublishMessageWithExchange_def Close_def broker_calls_def
  exchange_calls_def binding_calls_def

lemmas example_defs = example_names_def example_env_def stubborn_env_def offline_env_def
  refusing_env_def quiet_env_def example_config_def example_connection_def example_channel_def
  pin_consumer_def pin_service_def pin_publisher_def stray_consumer_def opening_calls_def

lemma example_names_fields:
  "DatabaseFileAddQueue example_names = ''dfa-queue''"
  "IpfsPinQueue example_names = ''ipfs-pin-queue''"
  "IpfsFileQueue example_names = ''ipfs-file-queue''"
  "EmailSendQueue example_names = ''email-send-queue''"
  "IpnsEntryQueue example_names = ''ipns-entry-queue''"
  "IpfsKeyCreationQueue example_names = ''ipfs-key-creation-queue''"
  "IpfsClusterPinQueue example_names = ''ipfs-cluster-add-queue''"
  "PinExchange example_names = ''ipfs-pin''"
  "PinRemovalExchange example_names = ''ipfs-pin-removal''"
  "IpfsKeyExchange example_names = ''ipfs-key-exchange''"
  by (simp_all add: example_names_def)

lemma example_env_simps:
  "os_Hostname example_env = Inr ''node1''"
  "os_OpenFile example_env f = None"
  "database_OpenDBConnection example_env opts = None"
  "json_Marshal example_env None = Inl (Error ''json: unsupported type'')"
  "json_Marshal example_env (Some s) = Inr (''\"'' @ s @ ''\"'')"
  "broker example_env tr c = None"
  "declared_name example_env n = n"
  "log_without_logger example_env entry tr = None"
  by (simp_all add: example_env_def)


lemma offline_env_simps:
  "database_OpenDBConnection offline_env opts = Some (Error ''dial tcp: connection refused'')"
  by (simp add: offline_env_def)

lemma refusing_env_simps:
  "database_OpenDBConnection refusing_env opts = None"
  "broker refusing_env tr (Consume ch q t a x l w) =
     Some (Error ''channel/connection is not open'')"
  "broker refusing_env tr (QueueBind ch q k exchange w) = None"
  by (simp_all add: refusing_env_def example_env_def)


lemma pin_consumer_fields:
  "connection pin_consumer = Some example_connection"
  "channel pin_consumer = Some example_channel"
  "queue pin_consumer = Some \<lparr>Name = ''node1+ipfs-pin-queue''\<rparr>"
  "QueueName pin_consumer = ''node1+ipfs-pin-queue''"
  "Service pin_consumer = ''ipfs-pin-queue''"
  "ExchangeName pin_consumer = ''ipfs-pin''"
  "logger pin_consumer = None"
  by (simp_all add: pin_consumer_def)


lemma pin_publisher_fields:
  "connection pin_publisher = Some example_connection"
  "channel pin_publisher = Some example_channel"
  "queue pin_publisher = None"
  "QueueName pin_publisher = ''node1+ipfs-pin-queue''"
  "Service pin_publisher = ''ipfs-pin-queue''"
  "ExchangeName pin_publisher = ''ipfs-pin''"
  by (simp_all add: pin_publisher_def pin_consumer_def)

lemma stray_consumer_fields:
  "connection stray_consumer = Some example_connection"
  "channel stray_consumer = Some example_channel"
  "queue stray_consumer = Some \<lparr>Name = ''no-such-queue''\<rparr>"
  "QueueName stray_consumer = ''no-such-queue''"
  "Service stray_consumer = ''no-such-queue''"
  "ExchangeName stray_consumer = []"
  by (simp_all add: stray_consumer_def)

lemma Initialize_pin_consumer:
  "Initialize example_names example_env ''ipfs-pin-queue'' ''amqp://broker'' False False [] =
     (Success pin_consumer,
      opening_calls @ [ExchangeDeclare example_channel ''ipfs-pin'' Fanout,
        QueueBind example_channel ''node1+ipfs-pin-queue'' [] ''ipfs-pin'' False,
        QueueDeclare example_channel ''node1+ipfs-pin-queue'' True False False False])"
  by (simp add: model_defs example_defs Let_def)

lemma Initialize_pin_service:
  "Initialize example_names example_env ''ipfs-pin-queue'' ''amqp://broker'' False True [] =
     (Success pin_service,
      opening_calls
        @ [LoggerInfo (Logger ''/var/log/temporal/ipfs-pin-queue_service.log'')
             ''Logging initialized'',
           ExchangeDeclare example_channel ''ipfs-pin'' Fanout,
           QueueBind example_channel ''node1+ipfs-pin-queue'' [] ''ipfs-pin'' False,
           QueueDeclare example_channel ''node1+ipfs-pin-queue'' True False False False,
           InfoEntry ''queue declared''])"
  by (simp add: model_defs example_defs Let_def)

lemma Initialize_pin_publisher:
  "Initialize example_names example_env ''ipfs-pin-queue'' ''amqp://broker'' True False [] =
     (Success pin_publisher,
      opening_calls @ [ExchangeDeclare example_channel ''ipfs-pin'' Fanout,
        QueueBind example_channel ''node1+ipfs-pin-queue'' [] ''ipfs-pin'' False])"
  by (simp add: model_defs example_defs Let_def)



lemma DeclareQueue_pin_publisher:
  "DeclareQueue example_env pin_publisher [] =
     (Success (), pin_consumer,
      [QueueDeclare example_channel ''node1+ipfs-pin-queue'' True False False False])"
  by (simp add: DeclareQueue_def and_then_def example_env_simps pin_publisher_def
      pin_consumer_def Let_def)

lemma OpenChannel_example:
  "OpenChannel example_env (new_Manager example_connection) [Dial ''amqp://broker''] =
     (Success (), (new_Manager example_connection)\<lparr>channel := Some example_channel\<rparr>,
      opening_calls)"
  by (simp add: OpenChannel_def and_then_def amqp_call_def new_Manager_def example_env_simps
      example_channel_def opening_calls_def Let_def)

subsection \<open>Sequencing and single steps\<close>

lemma amqp_call_trace: "snd (snd (amqp_call e c qm tr)) = tr @ [c]"
  by (simp add: amqp_call_def split: option.splits)

lemma and_then_SuccessD:
  "and_then r k = (Success b, qm', tr') \<Longrightarrow>
     \<exists>a qm tr. r = (Success a, qm, tr) \<and> k a qm tr = (Success b, qm', tr')"
  by (auto simp add: and_then_def split: prod.splits result.splits)

lemma returning_SuccessD:
  "returning r = (Success qm, tr) \<Longrightarrow> r = (Success (), qm, tr)"
  by (auto simp add: returning_def split: prod.splits result.splits)


lemma setupConnection_SuccessD:
  "setupConnection e url tr = (Success conn, tr') \<Longrightarrow>
     conn = Connection url \<and> tr' = tr @ [Dial url]"
  by (auto simp add: setupConnection_def split: option.splits)

lemma OpenChannel_SuccessD:
  "OpenChannel e qm tr = (Success u, qm', tr') \<Longrightarrow>
     \<exists>conn. connection qm = Some conn \<and> qm' = qm\<lparr>channel := Some (Channel conn)\<rparr>
       \<and> broker_calls tr' = broker_calls tr @ [ConnectionChannel conn, Qos (Channel conn) 10 0 False]"
  by (auto simp add: OpenChannel_def and_then_def amqp_call_def broker_calls_def LogInfo_def
      log_entry_def Let_def split: option.splits if_splits)

lemma setupLogging_SuccessD:
  "setupLogging e qm tr = (Success u, qm', tr') \<Longrightarrow>
     (\<exists>l. qm' = qm\<lparr>logger := Some l\<rparr>) \<and> broker_calls tr' = broker_calls tr"
  by (auto simp add: setupLogging_def broker_calls_def Let_def split: option.splits)

lemma parseQueueName_SuccessD:
  "parseQueueName e queueName qm tr = (Success u, qm', tr') \<Longrightarrow>
     (\<exists>host. os_Hostname e = Inr host \<and> qm' = qm\<lparr>QueueName := host @ ''+'' @ queueName\<rparr>)
     \<and> tr' = tr"
  by (auto simp add: parseQueueName_def split: sum.splits)

lemma DeclareExchange_SuccessD:
  "DeclareExchange e x qm tr = (Success u, qm', tr') \<Longrightarrow>
     \<exists>ch. channel qm = Some ch \<and> qm' = qm
       \<and> tr' = tr @ [ExchangeDeclare ch x Fanout, QueueBind ch (QueueName qm) [] x False]"
  by (auto simp add: DeclareExchange_def and_then_def amqp_call_def split: option.splits)

lemma DeclareQueue_SuccessD:
  "DeclareQueue e qm tr = (Success u, qm', tr') \<Longrightarrow>
     \<exists>ch. channel qm = Some ch
       \<and> qm' = qm\<lparr>queue := Some \<lparr>Name = declared_name e (QueueName qm)\<rparr>\<rparr>
       \<and> broker_calls tr' =
           broker_calls tr @ [QueueDeclare ch (QueueName qm) True False False False]"
  by (auto simp add: DeclareQueue_def and_then_def broker_calls_def LogInfo_def log_entry_def
      Let_def split: option.splits if_splits)

lemma Initialize_SuccessD:
  assumes "Initialize N e queueName url publish service tr = (Success qm, tr')"
  shows "connection qm = Some (Connection url) \<and> channel qm = Some (Channel (Connection url))
     \<and> Service qm = queueName
     \<and> (if queueName = IpfsPinQueue N \<or> queueName = IpfsKeyCreationQueue N
         then \<exists>host. os_Hostname e = Inr host \<and> QueueName qm = host @ ''+'' @ queueName
         else QueueName qm = queueName)
     \<and> ExchangeName qm =
         (if queueName = IpfsPinQueue N then PinExchange N
          else if queueName = IpfsKeyCreationQueue N then IpfsKeyExchange N else [])
     \<and> queue qm = (if publish then None else Some \<lparr>Name = declared_name e (QueueName qm)\<rparr>)
     \<and> broker_calls tr' =
         broker_calls tr
         @ [Dial url, ConnectionChannel (Connection url), Qos (Channel (Connection url)) 10 0 False]
         @ exchange_calls N queueName (Channel (Connection url)) (QueueName qm)
         @ (if publish then []
            else [QueueDeclare (Channel (Connection url)) (QueueName qm) True False False False])"
proof -
  from assms obtain conn tr1 where
    c: "setupConnection e url tr = (Success conn, tr1)" and
    r: "returning
            (and_then (OpenChannel e (new_Manager conn) tr1) (\<lambda>_ qm tr.
             and_then
               (if service
                then setupLogging e (qm\<lparr>QueueName := queueName, Service := queueName\<rparr>) tr
                else (Success (), qm\<lparr>QueueName := queueName, Service := queueName\<rparr>, tr))
               (\<lambda>_ qm tr.
             and_then
               (if queueName = IpfsPinQueue N then
                  and_then (parseQueueName e queueName qm tr) (\<lambda>_ qm tr.
                  and_then (DeclareIPFSPinExchange N e qm tr) (\<lambda>_ qm tr.
                  (Success (), qm\<lparr>ExchangeName := PinExchange N\<rparr>, tr)))
                else if queueName = IpfsKeyCreationQueue N then
                  and_then (parseQueueName e queueName qm tr) (\<lambda>_ qm tr.
                  and_then (DeclareIPFSKeyExchange N e qm tr) (\<lambda>_ qm tr.
                  (Success (), qm\<lparr>ExchangeName := IpfsKeyExchange N\<rparr>, tr)))
                else (Success (), qm, tr))
               (\<lambda>_ qm tr.
             if publish then (Success (), qm, tr)
             else DeclareQueue e qm tr)))) = (Success qm, tr')"
    by (auto simp add: Initialize_def split: prod.splits result.splits)
  from c have conn: "conn = Connection url" and tr1: "tr1 = tr @ [Dial url]"
    by (auto dest: setupConnection_SuccessD)
  from returning_SuccessD [OF r] obtain u1 qm1 t1 where
    o: "OpenChannel e (new_Manager conn) tr1 = (Success u1, qm1, t1)" and
    r2: "and_then
               (if service
                then setupLogging e (qm1\<lparr>QueueName := queueName, Service := queueName\<rparr>) t1
                else (Success (), qm1\<lparr>QueueName := queueName, Service := queueName\<rparr>, t1))
               (\<lambda>_ qm tr.
             and_then
               (if queueName = IpfsPinQueue N then
                  and_then (parseQueueName e queueName qm tr) (\<lambda>_ qm tr.
                  and_then (DeclareIPFSPinExchange N e qm tr) (\<lambda>_ qm tr.
                  (Success (), qm\<lparr>ExchangeName := PinExchange N\<rparr>, tr)))
                else if queueName = IpfsKeyCreationQueue N then
                  and_then (parseQueueName e queueName qm tr) (\<lambda>_ qm tr.
                  and_then (DeclareIPFSKeyExchange N e qm tr) (\<lambda>_ qm tr.
                  (Success (), qm\<lparr>ExchangeName := IpfsKeyExchange N\<rparr>, tr)))
                else (Success (), qm, tr))
               (\<lambda>_ qm tr.
             if publish then (Success (), qm, tr)
             else DeclareQueue e qm tr)) = (Success (), qm, tr')"
    by (blast dest: and_then_SuccessD)
  let ?ch = "Channel (Connection url)"
  from OpenChannel_SuccessD [OF o] conn tr1 have
    qm1: "connection qm1 = Some (Connection url)" "channel qm1 = Some ?ch" "queue qm1 = None"
      "ExchangeName qm1 = []" and
    t1: "broker_calls t1 = broker_calls tr @ [Dial url, ConnectionChannel (Connection url),
           Qos ?ch 10 0 False]"
    by (auto simp add: new_Manager_def broker_calls_def)
  from and_then_SuccessD [OF r2] obtain u2 qm2 t2 where
    l: "(if service
                then setupLogging e (qm1\<lparr>QueueName := queueName, Service := queueName\<rparr>) t1
                else (Success (), qm1\<lparr>QueueName := queueName, Service := queueName\<rparr>, t1))
         = (Success u2, qm2, t2)" and
    r3: "and_then
               (if queueName = IpfsPinQueue N then
                  and_then (parseQueueName e queueName qm2 t2) (\<lambda>_ qm tr.
                  and_then (DeclareIPFSPinExchange N e qm tr) (\<lambda>_ qm tr.
                  (Success (), qm\<lparr>ExchangeName := PinExchange N\<rparr>, tr)))
                else if queueName = IpfsKeyCreationQueue N then
                  and_then (parseQueueName e queueName qm2 t2) (\<lambda>_ qm tr.
                  and_then (DeclareIPFSKeyExchange N e qm tr) (\<lambda>_ qm tr.
                  (Success (), qm\<lparr>ExchangeName := IpfsKeyExchange N\<rparr>, tr)))
                else (Success (), qm2, t2))
               (\<lambda>_ qm tr.
             if publish then (Success (), qm, tr)
             else DeclareQueue e qm tr) = (Success (), qm, tr')"
    by blast
  from l qm1 have
    qm2: "connection qm2 = Some (Connection url)" "channel qm2 = Some ?ch" "queue qm2 = None"
      "ExchangeName qm2 = []" "QueueName qm2 = queueName" "Service qm2 = queueName"
    and t2: "broker_calls t2 = broker_calls t1"
    by (auto dest!: setupLogging_SuccessD split: if_splits)
  from and_then_SuccessD [OF r3] obtain u3 qm3 t3 where
    x: "(if queueName = IpfsPinQueue N then
                  and_then (parseQueueName e queueName qm2 t2) (\<lambda>_ qm tr.
                  and_then (DeclareIPFSPinExchange N e qm tr) (\<lambda>_ qm tr.
                  (Success (), qm\<lparr>ExchangeName := PinExchange N\<rparr>, tr)))
                else if queueName = IpfsKeyCreationQueue N then
                  and_then (parseQueueName e queueName qm2 t2) (\<lambda>_ qm tr.
                  and_then (DeclareIPFSKeyExchange N e qm tr) (\<lambda>_ qm tr.
                  (Success (), qm\<lparr>ExchangeName := IpfsKeyExchange N\<rparr>, tr)))
                else (Success (), qm2, t2)) = (Success u3, qm3, t3)" and
    d: "(if publish then (Success (), qm3, t3) else DeclareQueue e qm3 t3) = (Success (), qm, tr')"
    by blast
  have qm3: "connection qm3 = Some (Connection url)" "channel qm3 = Some ?ch" "queue qm3 = None"
      "Service qm3 = queueName"
    and qn3: "if queueName = IpfsPinQueue N \<or> queueName = IpfsKeyCreationQueue N
         then \<exists>host. os_Hostname e = Inr host \<and> QueueName qm3 = host @ ''+'' @ queueName
         else QueueName qm3 = queueName"
    and xn3: "ExchangeName qm3 =
         (if queueName = IpfsPinQueue N then PinExchange N
          else if queueName = IpfsKeyCreationQueue N then IpfsKeyExchange N else [])"
    and t3: "t3 = t2 @ exchange_calls N queueName ?ch (QueueName qm3)"
    using x qm2
    by (auto simp add: exchange_calls_def DeclareIPFSPinExchange_def DeclareIPFSKeyExchange_def
        split: if_splits
        dest!: and_then_SuccessD parseQueueName_SuccessD DeclareExchange_SuccessD)
  have bt3: "broker_calls t3 = broker_calls tr
         @ [Dial url, ConnectionChannel (Connection url), Qos ?ch 10 0 False]
         @ exchange_calls N queueName ?ch (QueueName qm3)"
    using t3 t2 t1 by (simp add: broker_calls_def exchange_calls_def)
  show ?thesis
  proof (cases publish)
    case True
    with d have "qm = qm3" "tr' = t3" by simp_all
    with True qm3 qn3 xn3 bt3 show ?thesis by (auto split: if_splits)
  next
    case False
    with d have dq: "DeclareQueue e qm3 t3 = (Success (), qm, tr')" by simp
    from DeclareQueue_SuccessD [OF dq] qm3 have
      q: "qm = qm3\<lparr>queue := Some \<lparr>Name = declared_name e (QueueName qm3)\<rparr>\<rparr>" and
      t: "broker_calls tr' = broker_calls t3 @ [QueueDeclare ?ch (QueueName qm3) True False False False]"
      by auto
    from q have f: "connection qm = connection qm3" "channel qm = channel qm3"
      "Service qm = Service qm3" "QueueName qm = QueueName qm3"
      "ExchangeName qm = ExchangeName qm3"
      "queue qm = Some \<lparr>Name = declared_name e (QueueName qm3)\<rparr>"
      by simp_all
    from False f qm3 qn3 xn3 bt3 t show ?thesis by (auto split: if_splits)
  qed
qed



lemma Initialize_accepted:
  assumes "\<And>tr c. broker e tr c = None" and "os_Hostname e = Inr host"
    and "\<And>f. os_OpenFile e f = None"
  shows "Initialize N e queueName url publish service tr =
     (let ch = Channel (Connection url);
          qn = (if queueName = IpfsPinQueue N \<or> queueName = IpfsKeyCreationQueue N
                then host @ ''+'' @ queueName else queueName);
          lg = Logger (''/var/log/temporal/'' @ queueName @ ''_service.log'')
      in (Success
            \<lparr>connection = Some (Connection url), channel = Some ch,
             queue = (if publish then None else Some \<lparr>Name = declared_name e qn\<rparr>),
             QueueName = qn, Service = queueName,
             ExchangeName =
               (if queueName = IpfsPinQueue N then PinExchange N
                else if queueName = IpfsKeyCreationQueue N then IpfsKeyExchange N else []),
             logger = (if service then Some lg else None), db = None, cfg = None\<rparr>,
          tr @ [Dial url, ConnectionChannel (Connection url), Qos ch 10 0 False]
             @ (if service then [LoggerInfo lg ''Logging initialized''] else [])
             @ exchange_calls N queueName ch qn
             @ (if publish then []
                else QueueDeclare ch qn True False False False
                       # (if service then [InfoEntry ''queue declared''] else []))))"
  by (simp add: Initialize_def setupConnection_def OpenChannel_def setupLogging_def
      parseQueueName_def DeclareQueue_def DeclareExchange_def DeclareIPFSPinExchange_def
      DeclareIPFSKeyExchange_def new_Manager_def returning_def and_then_def amqp_call_def
      LogInfo_def log_entry_def exchange_calls_def assms Let_def)


lemma ConsumeMessages_run:
  assumes "config = Some c" and "database_OpenDBConnection e (database_options c) = None"
    and "channel qm = Some ch"
  shows "ConsumeMessages N e consumer config qm tr =
     (let qm1 = qm\<lparr>db := Some (DB (database_options c)), cfg := Some c\<rparr>;
          consume = Consume ch (QueueName qm) consumer False False False False
      in case (if binding_calls N qm ch = [] then None
               else broker e tr (QueueBind ch (QueueName qm) [] (ExchangeName qm) False)) of
           Some err \<Rightarrow> (Failure err, qm1, tr @ binding_calls N qm ch)
         | None \<Rightarrow>
             (case broker e (tr @ binding_calls N qm ch) consume of
                Some err \<Rightarrow> (Failure err, qm1, tr @ binding_calls N qm ch @ [consume])
              | None \<Rightarrow>
                  (dispatch N (Service qm) (Deliveries ch (QueueName qm) consumer), qm1,
                   tr @ binding_calls N qm ch @ [consume])))"
  using assms
  by (simp add: ConsumeMessages_def binding_calls_def amqp_call_def and_then_def Let_def
      split: option.splits)

lemma ConsumeMessages_no_channel:
  assumes "config = Some c" and "database_OpenDBConnection e (database_options c) = None"
    and "channel qm = None"
  shows "ConsumeMessages N e consumer config qm tr =
     (Panic, qm\<lparr>db := Some (DB (database_options c)), cfg := Some c\<rparr>, tr)"
  using assms by (simp add: ConsumeMessages_def and_then_def Let_def)

lemma dispatch_unrecognized:
  "service \<notin> {DatabaseFileAddQueue N, IpfsPinQueue N, IpfsFileQueue N, EmailSendQueue N,
       IpnsEntryQueue N, IpfsKeyCreationQueue N, IpfsClusterPinQueue N} \<Longrightarrow>
   dispatch N service msgs = Failure (Error ''invalid queue name'')"
  by (simp add: dispatch_def)






subsection \<open>Consuming\<close>

text \<open>
  C1 (as the code has it). For a manager whose category is none of the seven recognized
  ones, \<open>ConsumeMessages\<close> never hands over to a handler, and what it does is this, in
  this order. A nil \<open>cfg\<close> panics. A database that cannot be opened gives the database's
  error, with no call made. A nil channel panics. If the exchange name asks for a binding,
  the binding is sent to the broker, and a refusal gives the broker's error. Then the
  \<open>Consume\<close> call is sent, and a refusal gives the broker's error. Only then, with the
  consumption stream open on the broker, is the error \<open>invalid queue name\<close> returned.
\<close>

theorem ConsumeMessages_unrecognized:
  assumes "Service qm \<notin> {DatabaseFileAddQueue N, IpfsPinQueue N, IpfsFileQueue N,
       EmailSendQueue N, IpnsEntryQueue N, IpfsKeyCreationQueue N, IpfsClusterPinQueue N}"
  shows "ConsumeMessages N e consumer config qm tr =
     (case config of
        None \<Rightarrow> (Panic, qm, tr)
      | Some c \<Rightarrow>
          (case database_OpenDBConnection e (database_options c) of
             Some err \<Rightarrow> (Failure err, qm, tr)
           | None \<Rightarrow>
               (let qm1 = qm\<lparr>db := Some (DB (database_options c)), cfg := Some c\<rparr> in
                case channel qm of
                  None \<Rightarrow> (Panic, qm1, tr)
                | Some ch \<Rightarrow>
                    (let bind = binding_calls N qm ch;
                         consume = Consume ch (QueueName qm) consumer False False False False
                     in case (if bind = [] then None
                              else broker e tr
                                     (QueueBind ch (QueueName qm) [] (ExchangeName qm) False)) of
                          Some err \<Rightarrow> (Failure err, qm1, tr @ bind)
                        | None \<Rightarrow>
                            (case broker e (tr @ bind) consume of
                               Some err \<Rightarrow> (Failure err, qm1, tr @ bind @ [consume])
                             | None \<Rightarrow>
                                 (Failure (Error ''invalid queue name''), qm1,
                                  tr @ bind @ [consume]))))))"
proof (cases config)
  case None
  then show ?thesis by (simp add: ConsumeMessages_def)
next
  case (Some c)
  show ?thesis
  proof (cases "database_OpenDBConnection e (database_options c)")
    case (Some err)
    with \<open>config = Some c\<close> show ?thesis by (simp add: ConsumeMessages_def Let_def)
  next
    case None
    note db = this
    show ?thesis
    proof (cases "channel qm")
      case None
      from ConsumeMessages_no_channel [OF \<open>config = Some c\<close> db None, of N consumer tr]
      show ?thesis using \<open>config = Some c\<close> db None by (simp add: Let_def)
    next
      case (Some ch)
      from ConsumeMessages_run [OF \<open>config = Some c\<close> db Some, of N consumer tr]
      show ?thesis using \<open>config = Some c\<close> db Some
        by (simp add: dispatch_unrecognized [OF assms] Let_def split: option.splits)
    qed
  qed
qed

theorem ConsumeMessages_unrecognized_witness:
  "ConsumeMessages example_names example_env ''worker'' (Some example_config)
        stray_consumer opening_calls =
       (Failure (Error ''invalid queue name''),
        stray_consumer\<lparr>db := Some (DB (database_options example_config)),
                        cfg := Some example_config\<rparr>,
        opening_calls
          @ [Consume example_channel ''no-such-queue'' ''worker'' False False False False])
   \<and> ConsumeMessages example_names offline_env ''worker'' (Some example_config)
        stray_consumer opening_calls =
       (Failure (Error ''dial tcp: connection refused''), stray_consumer, opening_calls)
   \<and> ConsumeMessages example_names refusing_env ''worker'' (Some example_config)
        stray_consumer opening_calls =
       (Failure (Error ''channel/connection is not open''),
        stray_consumer\<lparr>db := Some (DB (database_options example_config)),
                        cfg := Some example_config\<rparr>,
        opening_calls
          @ [Consume example_channel ''no-such-queue'' ''worker'' False False False False])"
proof -
  have u: "Service stray_consumer \<notin> {DatabaseFileAddQueue example_names,
       IpfsPinQueue example_names, IpfsFileQueue example_names, EmailSendQueue example_names,
       IpnsEntryQueue example_names, IpfsKeyCreationQueue example_names,
       IpfsClusterPinQueue example_names}"
    by (simp add: stray_consumer_fields example_names_fields)
  have b: "binding_calls example_names stray_consumer example_channel = []"
    by (simp add: binding_calls_def stray_consumer_fields example_names_fields)
  show ?thesis
    using ConsumeMessages_unrecognized [OF u, of example_env "''worker''"
        "Some example_config" opening_calls]
      ConsumeMessages_unrecognized [OF u, of offline_env "''worker''"
        "Some example_config" opening_calls]
      ConsumeMessages_unrecognized [OF u, of refusing_env "''worker''"
        "Some example_config" opening_calls]
    by (simp add: b example_env_simps offline_env_simps refusing_env_simps
        stray_consumer_fields Let_def)
qed

text \<open>
  C1 (as the spec has it) fails: the manager \<open>Initialize\<close> returns for the name
  \<open>no-such-queue\<close> gets \<open>invalid queue name\<close> from \<open>ConsumeMessages\<close> only after the
  \<open>Consume\<close> call was sent to the broker.
\<close>

theorem ConsumeMessages_unrecognized_counterexample:
  "Initialize example_names example_env ''no-such-queue'' ''amqp://broker'' False False [] =
     (Success stray_consumer,
      opening_calls @ [QueueDeclare example_channel ''no-such-queue'' True False False False])
   \<and> fst (ConsumeMessages example_names example_env ''worker'' (Some example_config)
        stray_consumer []) = Failure (Error ''invalid queue name'')
   \<and> broker_calls (snd (snd (ConsumeMessages example_names example_env ''worker''
        (Some example_config) stray_consumer []))) =
       [Consume example_channel ''no-such-queue'' ''worker'' False False False False]"
  by (simp add: model_defs example_defs Let_def)

text \<open>
  C4. Once the database connection is open, \<open>ConsumeMessages\<close> sends the broker: for an
  exchange name among \<open>PinRemovalExchange\<close>, \<open>PinExchange\<close>, \<open>IpfsKeyExchange\<close>, first
  the binding of the queue to that exchange and then, if the broker accepts it, the
  \<open>Consume\<close> call; for any other exchange name the \<open>Consume\<close> call alone. The
  \<open>Consume\<close> call always has auto-acknowledge \<open>False\<close>.
\<close>

theorem ConsumeMessages_binds_then_consumes:
  assumes "config = Some c" and "database_OpenDBConnection e (database_options c) = None"
    and "channel qm = Some ch"
  shows "snd (snd (ConsumeMessages N e consumer config qm tr)) =
     (if ExchangeName qm \<in> {PinRemovalExchange N, PinExchange N, IpfsKeyExchange N}
      then (case broker e tr (QueueBind ch (QueueName qm) [] (ExchangeName qm) False) of
              Some err \<Rightarrow> tr @ [QueueBind ch (QueueName qm) [] (ExchangeName qm) False]
            | None \<Rightarrow>
                tr @ [QueueBind ch (QueueName qm) [] (ExchangeName qm) False,
                      Consume ch (QueueName qm) consumer False False False False])
      else tr @ [Consume ch (QueueName qm) consumer False False False False])"
  by (simp add: ConsumeMessages_run [OF assms] binding_calls_def Let_def split: option.splits)

theorem ConsumeMessages_binds_then_consumes_witness:
  "snd (snd (ConsumeMessages example_names example_env ''worker'' (Some example_config)
       pin_consumer opening_calls)) =
     opening_calls
       @ [QueueBind example_channel ''node1+ipfs-pin-queue'' [] ''ipfs-pin'' False,
          Consume example_channel ''node1+ipfs-pin-queue'' ''worker'' False False False False]"
proof -
  have d: "database_OpenDBConnection example_env (database_options example_config) = None"
    by (simp add: example_env_simps)
  have c: "channel pin_consumer = Some example_channel"
    by (simp add: pin_consumer_fields)
  show ?thesis
    using ConsumeMessages_binds_then_consumes [OF refl d c, of example_names "''worker''"
        opening_calls]
    by (simp add: example_env_simps pin_consumer_fields example_names_fields)
qed


subsection \<open>Initialization\<close>

text \<open>
  C2. A successful \<open>Initialize\<close> sends the broker, in this order: the dial, the opening
  of the channel, the quality-of-service bound; when the queue name is \<open>IpfsPinQueue\<close>
  or \<open>IpfsKeyCreationQueue\<close>, the declaration of the exchange and the binding of the
  queue to it; and last the declaration of the queue, unless the manager is publish-only,
  in which case no queue is declared. With a broker that accepts every call, a host name
  and a log file that opens, \<open>Initialize\<close> is successful and sends exactly these calls.
\<close>

theorem Initialize_exchange_then_queue:
  "(Initialize N e queueName url publish service tr = (Success qm, tr') \<longrightarrow>
      broker_calls tr' =
        broker_calls tr
        @ [Dial url, ConnectionChannel (Connection url),
           Qos (Channel (Connection url)) 10 0 False]
        @ exchange_calls N queueName (Channel (Connection url)) (QueueName qm)
        @ (if publish then []
           else [QueueDeclare (Channel (Connection url)) (QueueName qm)
                   True False False False]))
   \<and> ((\<forall>t k. broker e t k = None) \<and> os_Hostname e = Inr host
        \<and> (\<forall>f. os_OpenFile e f = None) \<longrightarrow>
        (\<exists>qm0. fst (Initialize N e queueName url publish service tr) = Success qm0)
        \<and> broker_calls (snd (Initialize N e queueName url publish service tr)) =
            broker_calls tr
            @ [Dial url, ConnectionChannel (Connection url),
               Qos (Channel (Connection url)) 10 0 False]
            @ exchange_calls N queueName (Channel (Connection url))
                (if queueName = IpfsPinQueue N \<or> queueName = IpfsKeyCreationQueue N
                 then host @ ''+'' @ queueName else queueName)
            @ (if publish then []
               else [QueueDeclare (Channel (Connection url))
                       (if queueName = IpfsPinQueue N \<or> queueName = IpfsKeyCreationQueue N
                        then host @ ''+'' @ queueName else queueName)
                       True False False False]))"
proof (intro conjI impI)
  assume "Initialize N e queueName url publish service tr = (Success qm, tr')"
  from Initialize_SuccessD [OF this]
  show "broker_calls tr' =
        broker_calls tr
        @ [Dial url, ConnectionChannel (Connection url),
           Qos (Channel (Connection url)) 10 0 False]
        @ exchange_calls N queueName (Channel (Connection url)) (QueueName qm)
        @ (if publish then []
           else [QueueDeclare (Channel (Connection url)) (QueueName qm)
                   True False False False])"
    by simp
next
  assume a: "(\<forall>t k. broker e t k = None) \<and> os_Hostname e = Inr host
        \<and> (\<forall>f. os_OpenFile e f = None)"
  then have r: "\<And>t k. broker e t k = None" "os_Hostname e = Inr host"
    "\<And>f. os_OpenFile e f = None"
    by simp_all
  show "\<exists>qm0. fst (Initialize N e queueName url publish service tr) = Success qm0"
    by (simp add: Initialize_accepted [OF r] Let_def)
  show "broker_calls (snd (Initialize N e queueName url publish service tr)) =
            broker_calls tr
            @ [Dial url, ConnectionChannel (Connection url),
               Qos (Channel (Connection url)) 10 0 False]
            @ exchange_calls N queueName (Channel (Connection url))
                (if queueName = IpfsPinQueue N \<or> queueName = IpfsKeyCreationQueue N
                 then host @ ''+'' @ queueName else queueName)
            @ (if publish then []
               else [QueueDeclare (Channel (Connection url))
                       (if queueName = IpfsPinQueue N \<or> queueName = IpfsKeyCreationQueue N
                        then host @ ''+'' @ queueName else queueName)
                       True False False False])"
    by (simp add: Initialize_accepted [OF r] Let_def broker_calls_def exchange_calls_def)
qed

theorem Initialize_exchange_then_queue_witness:
  "fst (Initialize example_names example_env ''ipfs-pin-queue'' ''amqp://broker'' False False [])
     = Success pin_consumer
   \<and> broker_calls (snd (Initialize example_names example_env ''ipfs-pin-queue''
        ''amqp://broker'' False False [])) =
       [Dial ''amqp://broker'', ConnectionChannel (Connection ''amqp://broker''),
        Qos (Channel (Connection ''amqp://broker'')) 10 0 False,
        ExchangeDeclare (Channel (Connection ''amqp://broker'')) ''ipfs-pin'' Fanout,
        QueueBind (Channel (Connection ''amqp://broker'')) ''node1+ipfs-pin-queue'' []
          ''ipfs-pin'' False,
        QueueDeclare (Channel (Connection ''amqp://broker'')) ''node1+ipfs-pin-queue''
          True False False False]
   \<and> fst (Initialize example_names example_env ''ipfs-pin-queue'' ''amqp://broker'' True False [])
     = Success pin_publisher
   \<and> broker_calls (snd (Initialize example_names example_env ''ipfs-pin-queue''
        ''amqp://broker'' True False [])) =
       [Dial ''amqp://broker'', ConnectionChannel (Connection ''amqp://broker''),
        Qos (Channel (Connection ''amqp://broker'')) 10 0 False,
        ExchangeDeclare (Channel (Connection ''amqp://broker'')) ''ipfs-pin'' Fanout,
        QueueBind (Channel (Connection ''amqp://broker'')) ''node1+ipfs-pin-queue'' []
          ''ipfs-pin'' False]"
proof -
  have p: "fst (Initialize example_names example_env ''ipfs-pin-queue'' ''amqp://broker''
      False False []) = Success pin_consumer"
    "fst (Initialize example_names example_env ''ipfs-pin-queue'' ''amqp://broker''
      True False []) = Success pin_publisher"
    by (simp_all add: Initialize_pin_consumer Initialize_pin_publisher)
  show ?thesis
    using Initialize_exchange_then_queue [of example_names example_env "''ipfs-pin-queue''"
        "''amqp://broker''" False False "[]" pin_consumer "[]" "''node1''"]
      Initialize_exchange_then_queue [of example_names example_env "''ipfs-pin-queue''"
        "''amqp://broker''" True False "[]" pin_publisher "[]" "''node1''"]
    by (simp add: p example_env_simps example_names_fields exchange_calls_def broker_calls_def)
qed



text \<open>
  C10. A manager returned by \<open>Initialize\<close> with \<open>publish = true\<close> has a nil queue, and
  \<open>Initialize\<close> has sent no queue declaration for it. On such a manager
  \<open>PublishMessage\<close> panics as soon as the payload is encoded, without publishing. After a
  successful \<open>DeclareQueue\<close> the queue is set and \<open>PublishMessage\<close> publishes with the
  queue's name as routing key.
\<close>

theorem Initialize_publish_only_queue_nil:
  assumes "Initialize N e queueName url True service tr = (Success qm, tr')"
  shows "queue qm = None
     \<and> broker_calls tr' =
         broker_calls tr
         @ [Dial url, ConnectionChannel (Connection url),
            Qos (Channel (Connection url)) 10 0 False]
         @ exchange_calls N queueName (Channel (Connection url)) (QueueName qm)
     \<and> (json_Marshal e2 body = Inr bytes \<longrightarrow>
          PublishMessage e2 body qm tr2 = (Panic, qm, tr2))
     \<and> (DeclareQueue e3 qm tr3 = (Success (), qm3, tr3') \<longrightarrow>
          queue qm3 = Some \<lparr>Name = declared_name e3 (QueueName qm)\<rparr>
          \<and> (json_Marshal e2 body = Inr bytes \<longrightarrow>
               PublishMessage e2 body qm3 tr2 =
                 amqp_call e2
                   (Publish (Channel (Connection url)) [] (declared_name e3 (QueueName qm))
                      False False
                      \<lparr>DeliveryMode = Persistent, ContentType = ''text/plain'',
                       Body = bytes\<rparr>)
                   qm3 tr2))"
proof -
  from Initialize_SuccessD [OF assms] have
    q: "queue qm = None" and ch: "channel qm = Some (Channel (Connection url))" and
    t: "broker_calls tr' =
         broker_calls tr
         @ [Dial url, ConnectionChannel (Connection url),
            Qos (Channel (Connection url)) 10 0 False]
         @ exchange_calls N queueName (Channel (Connection url)) (QueueName qm)"
    by simp_all
  have p: "json_Marshal e2 body = Inr bytes \<longrightarrow>
          PublishMessage e2 body qm tr2 = (Panic, qm, tr2)"
    using q by (simp add: PublishMessage_def)
  have d: "DeclareQueue e3 qm tr3 = (Success (), qm3, tr3') \<longrightarrow>
          queue qm3 = Some \<lparr>Name = declared_name e3 (QueueName qm)\<rparr>
          \<and> (json_Marshal e2 body = Inr bytes \<longrightarrow>
               PublishMessage e2 body qm3 tr2 =
                 amqp_call e2
                   (Publish (Channel (Connection url)) [] (declared_name e3 (QueueName qm))
                      False False
                      \<lparr>DeliveryMode = Persistent, ContentType = ''text/plain'',
                       Body = bytes\<rparr>)
                   qm3 tr2)"
  proof
    assume "DeclareQueue e3 qm tr3 = (Success (), qm3, tr3')"
    from DeclareQueue_SuccessD [OF this]
    have "qm3 = qm\<lparr>queue := Some \<lparr>Name = declared_name e3 (QueueName qm)\<rparr>\<rparr>"
      by auto
    then have "queue qm3 = Some \<lparr>Name = declared_name e3 (QueueName qm)\<rparr>"
      and "channel qm3 = channel qm"
      by simp_all
    with ch show "queue qm3 = Some \<lparr>Name = declared_name e3 (QueueName qm)\<rparr>
          \<and> (json_Marshal e2 body = Inr bytes \<longrightarrow>
               PublishMessage e2 body qm3 tr2 =
                 amqp_call e2
                   (Publish (Channel (Connection url)) [] (declared_name e3 (QueueName qm))
                      False False
                      \<lparr>DeliveryMode = Persistent, ContentType = ''text/plain'',
                       Body = bytes\<rparr>)
                   qm3 tr2)"
      by (simp add: PublishMessage_def)
  qed
  from q t p d show ?thesis by blast
qed

theorem Initialize_publish_only_queue_nil_witness:
  "queue pin_publisher = None
   \<and> PublishMessage example_env (Some ''job'') pin_publisher [] = (Panic, pin_publisher, [])
   \<and> queue pin_consumer = Some \<lparr>Name = ''node1+ipfs-pin-queue''\<rparr>
   \<and> PublishMessage example_env (Some ''job'') pin_consumer [] =
       (Success (), pin_consumer,
        [Publish example_channel [] ''node1+ipfs-pin-queue'' False False
           \<lparr>DeliveryMode = Persistent, ContentType = ''text/plain'', Body = ''\"job\"''\<rparr>])"
  using Initialize_publish_only_queue_nil [OF Initialize_pin_publisher,
      of example_env "Some ''job''" "''\"job\"''" "[]" example_env "[]" pin_consumer
        "[QueueDeclare example_channel ''node1+ipfs-pin-queue'' True False False False]"]
  by (simp add: DeclareQueue_pin_publisher example_env_simps pin_publisher_fields
      amqp_call_def example_channel_def example_connection_def)

subsection \<open>Publishing\<close>

text \<open>
  C3. For an exchange name that is none of \<open>PinExchange\<close>, \<open>PinRemovalExchange\<close>,
  \<open>IpfsKeyExchange\<close>, \<open>PublishMessageWithExchange\<close> returns the error
  \<open>invalid exchange name provided\<close> whatever the payload, the encoder and the broker are,
  and adds no call to the calls made: nothing is encoded and nothing is published.
\<close>

theorem PublishMessageWithExchange_rejects:
  assumes "exchangeName \<notin> {PinExchange N, PinRemovalExchange N, IpfsKeyExchange N}"
  shows "PublishMessageWithExchange N e body exchangeName qm tr =
           (Failure (Error ''invalid exchange name provided''), qm, tr)"
  using assms by (simp add: PublishMessageWithExchange_def)

theorem PublishMessageWithExchange_rejects_witness:
  "''ipfs-pin-queue'' \<notin> {PinExchange example_names, PinRemovalExchange example_names,
       IpfsKeyExchange example_names}
   \<and> PublishMessageWithExchange example_names example_env (Some ''job'') ''ipfs-pin-queue''
        pin_publisher opening_calls =
       (Failure (Error ''invalid exchange name provided''), pin_publisher, opening_calls)"
proof -
  have h: "''ipfs-pin-queue'' \<notin> {PinExchange example_names, PinRemovalExchange example_names,
       IpfsKeyExchange example_names}"
    by (simp add: example_names_fields)
  from PublishMessageWithExchange_rejects [OF h] h show ?thesis by simp
qed

text \<open>
  C5. \<open>PublishMessage\<close> and, for an allowed exchange name, \<open>PublishMessageWithExchange\<close>
  encode the payload first. If the encoder fails, its error is returned and no call is
  made. If it succeeds (on a manager with a channel and, for \<open>PublishMessage\<close>, a queue),
  exactly one call is made: a publish with the persistent delivery mode, the content
  type \<open>text/plain\<close> and the encoded bytes as body.
\<close>

theorem Publish_encodes_then_persistent:
  "(json_Marshal e body = Inl err \<longrightarrow>
      PublishMessage e body qm tr = (Failure err, qm, tr)
      \<and> (exchangeName \<in> {PinExchange N, PinRemovalExchange N, IpfsKeyExchange N} \<longrightarrow>
           PublishMessageWithExchange N e body exchangeName qm tr = (Failure err, qm, tr)))
   \<and> (json_Marshal e body = Inr bytes \<and> channel qm = Some ch \<longrightarrow>
      (\<forall>q. queue qm = Some q \<longrightarrow>
         snd (snd (PublishMessage e body qm tr)) =
           tr @ [Publish ch [] (Name q) False False
                   \<lparr>DeliveryMode = Persistent, ContentType = ''text/plain'',
                    Body = bytes\<rparr>])
      \<and> (exchangeName \<in> {PinExchange N, PinRemovalExchange N, IpfsKeyExchange N} \<longrightarrow>
           snd (snd (PublishMessageWithExchange N e body exchangeName qm tr)) =
             tr @ [Publish ch exchangeName [] False False
                     \<lparr>DeliveryMode = Persistent, ContentType = ''text/plain'',
                      Body = bytes\<rparr>]))"
  by (auto simp add: PublishMessage_def PublishMessageWithExchange_def amqp_call_trace)

theorem Publish_encodes_then_persistent_witness:
  "PublishMessage example_env None pin_consumer opening_calls =
     (Failure (Error ''json: unsupported type''), pin_consumer, opening_calls)
   \<and> PublishMessageWithExchange example_names example_env None ''ipfs-pin'' pin_consumer
        opening_calls =
       (Failure (Error ''json: unsupported type''), pin_consumer, opening_calls)
   \<and> snd (snd (PublishMessage example_env (Some ''job'') pin_consumer opening_calls)) =
       opening_calls
         @ [Publish example_channel [] ''node1+ipfs-pin-queue'' False False
              \<lparr>DeliveryMode = Persistent, ContentType = ''text/plain'',
               Body = ''\"job\"''\<rparr>]
   \<and> snd (snd (PublishMessageWithExchange example_names example_env (Some ''job'')
        ''ipfs-pin'' pin_consumer opening_calls)) =
       opening_calls
         @ [Publish example_channel ''ipfs-pin'' [] False False
              \<lparr>DeliveryMode = Persistent, ContentType = ''text/plain'',
               Body = ''\"job\"''\<rparr>]"
  using Publish_encodes_then_persistent [of example_env None "Error ''json: unsupported type''"
      pin_consumer opening_calls "''ipfs-pin''" example_names "[]" example_channel]
    Publish_encodes_then_persistent [of example_env "Some ''job''"
      "Error ''json: unsupported type''" pin_consumer opening_calls "''ipfs-pin''"
      example_names "''\"job\"''" example_channel]
  by (simp add: example_env_simps pin_consumer_fields example_names_fields)

subsection \<open>Queue, channel and shutdown\<close>

text \<open>
  C6. On a manager with a channel, \<open>DeclareQueue\<close> sends the broker exactly one call,
  whatever the queue name is: the declaration of that queue with durable \<open>True\<close>,
  auto-delete \<open>False\<close>, exclusive \<open>False\<close> (and no-wait \<open>False\<close>).
\<close>

theorem DeclareQueue_durable:
  assumes "channel qm = Some ch"
  shows "broker_calls (snd (snd (DeclareQueue e qm tr))) =
           broker_calls tr @ [QueueDeclare ch (QueueName qm) True False False False]"
  using assms
  by (simp add: DeclareQueue_def and_then_def broker_calls_def LogInfo_def log_entry_def
      Let_def split: option.splits)

theorem DeclareQueue_durable_witness:
  "channel pin_publisher = Some example_channel
   \<and> broker_calls (snd (snd (DeclareQueue example_env pin_publisher []))) =
       [QueueDeclare example_channel ''node1+ipfs-pin-queue'' True False False False]"
proof -
  have h: "channel pin_publisher = Some example_channel"
    by (simp add: pin_publisher_fields)
  from DeclareQueue_durable [OF h, of example_env "[]"] h show ?thesis
    by (simp add: pin_publisher_fields broker_calls_def)
qed

text \<open>
  C7. Whenever \<open>OpenChannel\<close> returns without error, the manager holds the channel opened
  on its connection, and the last call made is the quality-of-service call on that
  channel with prefetch count 10 (prefetch size 0, not global), which the broker
  accepted; the calls sent to the broker are the opening of the channel and that call.
\<close>

theorem OpenChannel_sets_qos:
  assumes "OpenChannel e qm tr = (Success (), qm', tr')"
  shows "\<exists>conn. connection qm = Some conn \<and> channel qm' = Some (Channel conn)
           \<and> broker_calls tr' =
               broker_calls tr @ [ConnectionChannel conn, Qos (Channel conn) 10 0 False]
           \<and> last tr' = Qos (Channel conn) 10 0 False
           \<and> broker e (butlast tr') (Qos (Channel conn) 10 0 False) = None"
  using assms
  by (auto simp add: OpenChannel_def and_then_def amqp_call_def broker_calls_def LogInfo_def
      log_entry_def Let_def butlast_append split: option.splits if_splits)

theorem OpenChannel_sets_qos_witness:
  "OpenChannel example_env (new_Manager example_connection) [Dial ''amqp://broker''] =
     (Success (), (new_Manager example_connection)\<lparr>channel := Some example_channel\<rparr>,
      opening_calls)
   \<and> broker_calls opening_calls =
       [Dial ''amqp://broker'', ConnectionChannel example_connection,
        Qos example_channel 10 0 False]
   \<and> last opening_calls = Qos example_channel 10 0 False"
  using OpenChannel_sets_qos [OF OpenChannel_example] OpenChannel_example
  by (simp add: new_Manager_def example_channel_def broker_calls_def)



end
